theory Spec2Isabelle
  imports Main "HOL-Library.Log_Nat"
begin

section \<open>Python strings\<close>

text \<open>
  The parser of \<^verbatim>\<open>app/services/parser.py\<close> works on Python \<^verbatim>\<open>str\<close> values. A text is
  modelled as a \<^typ>\<open>string\<close>, one \<^typ>\<open>char\<close> per character, for texts of ASCII
  characters: there \<^verbatim>\<open>lower()\<close> keeps the length, and \<^verbatim>\<open>\d\<close>, \<^verbatim>\<open>\w\<close>, \<^verbatim>\<open>\s\<close>
  and \<^verbatim>\<open>isspace()\<close> are the classes below. The Unicode tables of Python for characters
  beyond ASCII are not part of the model: such a \<^typ>\<open>char\<close> is in no class and has no
  case. The non-ASCII keys of the currency table are written as their UTF-8 bytes.
\<close>

definition code :: "char \<Rightarrow> nat" where
  "code c = of_char c"

definition in_rng :: "char \<Rightarrow> char \<Rightarrow> char \<Rightarrow> bool" where
  "in_rng a b c = (code a \<le> code c \<and> code c \<le> code b)"

definition is_digit :: "char \<Rightarrow> bool" where
  "is_digit c = in_rng CHR ''0'' CHR ''9'' c"

definition is_upper :: "char \<Rightarrow> bool" where
  "is_upper c = in_rng CHR ''A'' CHR ''Z'' c"

definition is_lower :: "char \<Rightarrow> bool" where
  "is_lower c = in_rng CHR ''a'' CHR ''z'' c"

definition is_alpha :: "char \<Rightarrow> bool" where
  "is_alpha c = (is_upper c \<or> is_lower c)"

text \<open>\<^verbatim>\<open>str.isspace()\<close> and \<^verbatim>\<open>\s\<close>: tab, line feed, vertical tab, form feed, carriage
  return, the four separators \<^verbatim>\<open>\x1c\<close> to \<^verbatim>\<open>\x1f\<close>, and the space.\<close>

definition is_space :: "char \<Rightarrow> bool" where
  "is_space c = ((9 \<le> code c \<and> code c \<le> 13) \<or> (28 \<le> code c \<and> code c \<le> 32))"

text \<open>\<^verbatim>\<open>\w\<close>: letters, digits and the underscore.\<close>

definition is_word :: "char \<Rightarrow> bool" where
  "is_word c = (is_alpha c \<or> is_digit c \<or> c = CHR ''_'')"

definition lower_char :: "char \<Rightarrow> char" where
  "lower_char c = (if is_upper c then char_of (code c + 32) else c)"

definition upper_char :: "char \<Rightarrow> char" where
  "upper_char c = (if is_lower c then char_of (code c - 32) else c)"

definition str_lower :: "string \<Rightarrow> string" where
  "str_lower s = map lower_char s"

definition str_upper :: "string \<Rightarrow> string" where
  "str_upper s = map upper_char s"

text \<open>\<^verbatim>\<open>s.strip()\<close>\<close>

definition str_strip :: "string \<Rightarrow> string" where
  "str_strip s = rev (dropWhile is_space (rev (dropWhile is_space s)))"

text \<open>\<^verbatim>\<open>s[a:b]\<close> for \<^verbatim>\<open>0 <= a <= b\<close>: a slice never raises, it is cut at the end of the text.\<close>

definition slice :: "string \<Rightarrow> nat \<Rightarrow> nat \<Rightarrow> string" where
  "slice s a b = take (b - a) (drop a s)"

text \<open>\<^verbatim>\<open>s.startswith(n)\<close>, \<^verbatim>\<open>s.find(n)\<close> (\<open>None\<close> for \<^verbatim>\<open>-1\<close>) and \<^verbatim>\<open>n in s\<close>.\<close>

primrec starts_with :: "string \<Rightarrow> string \<Rightarrow> bool" where
  "starts_with [] h = True"
| "starts_with (x # xs) h = (case h of [] \<Rightarrow> False | y # ys \<Rightarrow> x = y \<and> starts_with xs ys)"

primrec str_find :: "string \<Rightarrow> string \<Rightarrow> nat option" where
  "str_find n [] = (if n = [] then Some 0 else None)"
| "str_find n (y # ys) =
     (if starts_with n (y # ys) then Some 0 else map_option Suc (str_find n ys))"

definition str_in :: "string \<Rightarrow> string \<Rightarrow> bool" where
  "str_in n h = (str_find n h \<noteq> None)"

text \<open>\<^verbatim>\<open>s.replace(c, "")\<close> for a one-character \<^verbatim>\<open>c\<close>, and \<^verbatim>\<open>s.replace(c, "", 1)\<close>.\<close>

definition remove_char :: "char \<Rightarrow> string \<Rightarrow> string" where
  "remove_char c s = filter (\<lambda>d. d \<noteq> c) s"

definition remove_first :: "char \<Rightarrow> string \<Rightarrow> string" where
  "remove_first c s = remove1 c s"

text \<open>\<^verbatim>\<open>s.isdigit()\<close>\<close>

definition str_isdigit :: "string \<Rightarrow> bool" where
  "str_isdigit s = (s \<noteq> [] \<and> list_all is_digit s)"

text \<open>\<^verbatim>\<open>s.split()\<close>: the maximal runs of characters that are not whitespace.\<close>

fun split_ws :: "string \<Rightarrow> string \<Rightarrow> string list" where
  "split_ws w [] = (if w = [] then [] else [rev w])"
| "split_ws w (c # cs) =
     (if is_space c then (if w = [] then split_ws [] cs else rev w # split_ws [] cs)
      else split_ws (c # w) cs)"

definition str_split :: "string \<Rightarrow> string list" where
  "str_split s = split_ws [] s"

text \<open>\<^verbatim>\<open>" ".join(ws)\<close>\<close>

fun join_sp :: "string list \<Rightarrow> string" where
  "join_sp [] = []"
| "join_sp [w] = w"
| "join_sp (w # ws) = w @ '' '' @ join_sp ws"

text \<open>\<^verbatim>\<open>s.capitalize()\<close> and \<^verbatim>\<open>s.title()\<close>: in a title every letter that follows a
  character without case is raised, every other letter lowered.\<close>

definition str_capitalize :: "string \<Rightarrow> string" where
  "str_capitalize s = (case s of [] \<Rightarrow> [] | c # cs \<Rightarrow> upper_char c # map lower_char cs)"

fun title_from :: "bool \<Rightarrow> string \<Rightarrow> string" where
  "title_from prev [] = []"
| "title_from prev (c # cs) =
     (if prev then lower_char c else upper_char c) # title_from (is_alpha c) cs"

definition str_title :: "string \<Rightarrow> string" where
  "str_title s = title_from False s"

section \<open>Regular expressions of the \<^verbatim>\<open>re\<close> module\<close>

text \<open>
  The patterns of the parser use literals, character classes, \<^verbatim>\<open>.\<close>, groups,
  alternation, greedy repetition, \<^verbatim>\<open>\b\<close>, \<^verbatim>\<open>^\<close> and \<^verbatim>\<open>$\<close>. \<^verbatim>\<open>re\<close> matches by
  backtracking: of two alternatives the left one is tried first, a greedy repetition tries
  one more round before it stops, and the first way that succeeds is the match. The
  matcher below returns every way a pattern can match from a position, in that order of
  preference, so the head of the list is the match \<^verbatim>\<open>re\<close> reports.
\<close>

datatype cls = Lit char | Dig | Wrd | Spc | Low | Upp

datatype rx =
    Chars "cls list"
  | NotChars "cls list"
  | AnyChar
  | Eps
  | Seq rx rx
  | Alt rx rx
  | Rep nat "nat option" rx
  | Grp nat rx
  | WordB
  | Bol
  | Eol

text \<open>The classes: one character, \<^verbatim>\<open>\d\<close>, \<^verbatim>\<open>\w\<close>, \<^verbatim>\<open>\s\<close>, \<^verbatim>\<open>a-z\<close> and \<^verbatim>\<open>A-Z\<close>. With
  \<^verbatim>\<open>re.IGNORECASE\<close> (the flag \<open>ic\<close>) a character matches when its lower or upper case
  form does.\<close>

fun in_cls :: "bool \<Rightarrow> char \<Rightarrow> cls \<Rightarrow> bool" where
  "in_cls ic c (Lit d) = (if ic then lower_char c = lower_char d else c = d)"
| "in_cls ic c Dig = is_digit c"
| "in_cls ic c Wrd = is_word c"
| "in_cls ic c Spc = is_space c"
| "in_cls ic c Low = (is_lower c \<or> (ic \<and> is_upper c))"
| "in_cls ic c Upp = (is_upper c \<or> (ic \<and> is_lower c))"

definition in_set :: "bool \<Rightarrow> cls list \<Rightarrow> char \<Rightarrow> bool" where
  "in_set ic cs c = list_ex (in_cls ic c) cs"

text \<open>A position in the text is the reversed text before it and the text after it; the
  groups matched so far are kept with their texts, the latest first.\<close>

record mstate =
  seen :: string
  rest :: string
  groups :: "(nat \<times> string) list"

definition at_word_boundary :: "mstate \<Rightarrow> bool" where
  "at_word_boundary st =
     ((case seen st of [] \<Rightarrow> False | c # _ \<Rightarrow> is_word c)
      \<noteq> (case rest st of [] \<Rightarrow> False | c # _ \<Rightarrow> is_word c))"

definition eat :: "(char \<Rightarrow> bool) \<Rightarrow> mstate \<Rightarrow> mstate list" where
  "eat p st =
     (case rest st of [] \<Rightarrow> []
      | c # cs \<Rightarrow> if p c then [st\<lparr>seen := c # seen st, rest := cs\<rparr>] else [])"

definition consumed :: "mstate \<Rightarrow> mstate \<Rightarrow> string" where
  "consumed st st' = take (length (seen st') - length (seen st)) (rest st)"

text \<open>Greedy repetition: \<open>n\<close> more rounds are allowed and \<open>lo\<close> more are required. When
  \<open>adv\<close> is set (a repetition without upper bound) a round has to consume a character, as
  \<^verbatim>\<open>re\<close> stops a loop whose body matched the empty text.\<close>

primrec rep :: "(mstate \<Rightarrow> mstate list) \<Rightarrow> bool \<Rightarrow> nat \<Rightarrow> nat \<Rightarrow> mstate \<Rightarrow> mstate list" where
  "rep f adv lo 0 st = (if lo = 0 then [st] else [])"
| "rep f adv lo (Suc n) st =
     concat (map (rep f adv (lo - 1) n)
       (filter (\<lambda>st'. if adv then length (rest st') < length (rest st) else True) (f st)))
     @ (if lo = 0 then [st] else [])"

primrec matches :: "bool \<Rightarrow> rx \<Rightarrow> mstate \<Rightarrow> mstate list" where
  "matches ic (Chars cs) = eat (in_set ic cs)"
| "matches ic (NotChars cs) = eat (\<lambda>c. \<not> in_set ic cs c)"
| "matches ic AnyChar = eat (\<lambda>c. c \<noteq> CHR 0x0A)"
| "matches ic Eps = (\<lambda>st. [st])"
| "matches ic (Seq a b) = (\<lambda>st. concat (map (matches ic b) (matches ic a st)))"
| "matches ic (Alt a b) = (\<lambda>st. matches ic a st @ matches ic b st)"
| "matches ic (Rep lo hi a) =
     (\<lambda>st. case hi of
        Some h \<Rightarrow> rep (matches ic a) False lo h st
      | None \<Rightarrow> rep (matches ic a) True lo (length (rest st)) st)"
| "matches ic (Grp n a) =
     (\<lambda>st. map (\<lambda>st'. st'\<lparr>groups := (n, consumed st st') # groups st'\<rparr>) (matches ic a st))"
| "matches ic WordB = (\<lambda>st. if at_word_boundary st then [st] else [])"
| "matches ic Bol = (\<lambda>st. if seen st = [] then [st] else [])"
| "matches ic Eol = (\<lambda>st. if rest st = [] \<or> rest st = [CHR 0x0A] then [st] else [])"

text \<open>A match object: \<^verbatim>\<open>m.start()\<close>, \<^verbatim>\<open>m.end()\<close>, \<^verbatim>\<open>m.group(0)\<close> and the groups.
  \<^verbatim>\<open>m.group(n)\<close> is \<open>None\<close> for a group that did not take part in the match.\<close>

record rmatch =
  m_start :: nat
  m_end :: nat
  m_text :: string
  m_groups :: "(nat \<times> string) list"

definition group :: "rmatch \<Rightarrow> nat \<Rightarrow> string option" where
  "group m n = map_of (m_groups m) n"

definition match_at :: "bool \<Rightarrow> rx \<Rightarrow> string \<Rightarrow> string \<Rightarrow> rmatch option" where
  "match_at ic r l s =
     (let st = \<lparr>seen = l, rest = s, groups = []\<rparr> in
      case matches ic r st of [] \<Rightarrow> None
      | st' # _ \<Rightarrow> Some \<lparr>m_start = length l, m_end = length (seen st'),
                        m_text = consumed st st', m_groups = groups st'\<rparr>)"

text \<open>\<^verbatim>\<open>re.search\<close> tries the start positions from left to right, the end of the text
  included.\<close>

fun search_on :: "bool \<Rightarrow> rx \<Rightarrow> string \<Rightarrow> string \<Rightarrow> rmatch option" where
  "search_on ic r l [] = match_at ic r l []"
| "search_on ic r l (c # cs) =
     (case match_at ic r l (c # cs) of Some m \<Rightarrow> Some m | None \<Rightarrow> search_on ic r (c # l) cs)"

definition search_from :: "bool \<Rightarrow> rx \<Rightarrow> string \<Rightarrow> nat \<Rightarrow> rmatch option" where
  "search_from ic r s p = search_on ic r (rev (take p s)) (drop p s)"

definition re_search :: "bool \<Rightarrow> rx \<Rightarrow> string \<Rightarrow> rmatch option" where
  "re_search ic r s = search_from ic r s 0"

definition re_match :: "bool \<Rightarrow> rx \<Rightarrow> string \<Rightarrow> rmatch option" where
  "re_match ic r s = match_at ic r [] s"

text \<open>\<^verbatim>\<open>finditer\<close> and \<^verbatim>\<open>re.sub\<close> go through the matches that do not overlap, from left
  to right. Every pattern they are used with consumes at least one character; after an
  empty match the scan moves one character on.\<close>

function finditer_from :: "bool \<Rightarrow> rx \<Rightarrow> string \<Rightarrow> nat \<Rightarrow> rmatch list" where
  "finditer_from ic r s p =
     (if length s < p then []
      else case search_from ic r s p of None \<Rightarrow> []
           | Some m \<Rightarrow> m # finditer_from ic r s (if p < m_end m then m_end m else Suc p))"
  by pat_completeness auto
termination
  by (relation "measure (\<lambda>(ic, r, s, p). Suc (length s) - p)") auto

declare finditer_from.simps [simp del]

definition re_finditer :: "bool \<Rightarrow> rx \<Rightarrow> string \<Rightarrow> rmatch list" where
  "re_finditer ic r s = finditer_from ic r s 0"

function sub_from :: "bool \<Rightarrow> rx \<Rightarrow> string \<Rightarrow> string \<Rightarrow> nat \<Rightarrow> string" where
  "sub_from ic r new s p =
     (if length s < p then []
      else case search_from ic r s p of None \<Rightarrow> drop p s
           | Some m \<Rightarrow>
               if m_start m < m_end m
               then slice s p (m_start m) @ new @ sub_from ic r new s (m_end m)
               else slice s p (Suc p) @ sub_from ic r new s (Suc p))"
  by pat_completeness auto
termination
proof (relation "measure (\<lambda>(ic, r, new, s, p). Suc (length s) - p)", goal_cases)
  case 1
  show ?case by simp
next
  case (2 ic r new s p m)
  have on: "search_on ic r l t = Some m \<Longrightarrow> length l \<le> m_start m" for l t
  proof (induction t arbitrary: l)
    case Nil
    then show ?case by (auto simp: match_at_def Let_def split: list.splits)
  next
    case (Cons c cs)
    show ?case
    proof (cases "match_at ic r l (c # cs)")
      case None
      with Cons.prems have "search_on ic r (c # l) cs = Some m" by simp
      from Cons.IH [OF this] show ?thesis by simp
    next
      case (Some m')
      with Cons.prems have "m' = m" by simp
      with Some show ?thesis by (auto simp: match_at_def Let_def split: list.splits)
    qed
  qed
  from 2 have "p \<le> m_start m" using on [of "rev (take p s)" "drop p s"]
    by (simp add: search_from_def)
  with 2 show ?case by simp
next
  case (3 ic r new s p m)
  then show ?case by auto
qed

declare sub_from.simps [simp del]

definition re_sub :: "bool \<Rightarrow> rx \<Rightarrow> string \<Rightarrow> string \<Rightarrow> string" where
  "re_sub ic r new s = sub_from ic r new s 0"

text \<open>Shorthands to write the patterns of the source.\<close>

definition ch :: "char \<Rightarrow> rx" where
  "ch c = Chars [Lit c]"

fun lit :: "string \<Rightarrow> rx" where
  "lit [] = Eps"
| "lit [c] = ch c"
| "lit (c # cs) = Seq (ch c) (lit cs)"

fun cat :: "rx list \<Rightarrow> rx" where
  "cat [] = Eps"
| "cat [r] = r"
| "cat (r # rs) = Seq r (cat rs)"

fun alts :: "rx list \<Rightarrow> rx" where
  "alts [] = Chars []"
| "alts [r] = r"
| "alts (r # rs) = Alt r (alts rs)"

definition opt :: "rx \<Rightarrow> rx" where
  "opt r = Rep 0 (Some 1) r"

definition star :: "rx \<Rightarrow> rx" where
  "star r = Rep 0 None r"

definition plus :: "rx \<Rightarrow> rx" where
  "plus r = Rep 1 None r"

definition times :: "nat \<Rightarrow> nat \<Rightarrow> rx \<Rightarrow> rx" where
  "times lo hi r = Rep lo (Some hi) r"

definition dg :: rx where
  "dg = Chars [Dig]"

definition ws :: rx where
  "ws = Chars [Spc]"

section \<open>Floats\<close>

text \<open>
  An amount is a Python \<^verbatim>\<open>float\<close>. A finite float is the rational number it stands for,
  and \<^verbatim>\<open>float(s)\<close> is the decimal number written in \<^verbatim>\<open>s\<close> rounded to the nearest
  double, ties to the even mantissa. \<open>None\<close> is the \<^verbatim>\<open>ValueError\<close> of a text that is no
  number; the texts \<^verbatim>\<open>inf\<close> and \<^verbatim>\<open>nan\<close> and a number beyond the largest double are
  \<open>None\<close> as well: the parser compares every such result with the range of amounts, which
  it fails, and goes on as it does after the \<^verbatim>\<open>ValueError\<close>; the balance pattern
  captures digits and separators only.
\<close>

definition pow2 :: "int \<Rightarrow> rat" where
  "pow2 k = (if 0 \<le> k then 2 ^ nat k else 1 / 2 ^ nat (- k))"

definition pow10 :: "int \<Rightarrow> rat" where
  "pow10 k = (if 0 \<le> k then 10 ^ nat k else 1 / 10 ^ nat (- k))"

definition round_half_even :: "rat \<Rightarrow> int" where
  "round_half_even x =
     (let f = \<lfloor>x\<rfloor>; d = x - of_int f in
      if d < 1 / 2 then f else if 1 / 2 < d then f + 1 else if even f then f else f + 1)"

text \<open>The exponent \<open>e\<close> with \<open>2 ^ e \<le> a / b < 2 ^ (e + 1)\<close>, for \<open>0 < a\<close> and \<open>0 < b\<close>.\<close>

definition floor_log2 :: "rat \<Rightarrow> int" where
  "floor_log2 x =
     (let (a, b) = quotient_of x; d = bitlen a - bitlen b in
      if pow2 d \<le> x then d else d - 1)"

definition to_double :: "rat \<Rightarrow> rat option" where
  "to_double x =
     (if x = 0 then Some 0
      else let a = \<bar>x\<bar>;
               u = max (floor_log2 a - 52) (- 1074);
               v = of_int (round_half_even (a / pow2 u)) * pow2 u
           in if 1024 \<le> floor_log2 v then None else Some (if x < 0 then - v else v))"

text \<open>\<^verbatim>\<open>int(s)\<close> for a text of digits.\<close>

fun digits_val :: "int \<Rightarrow> string \<Rightarrow> int" where
  "digits_val acc [] = acc"
| "digits_val acc (c # cs) = digits_val (10 * acc + (int (code c) - 48)) cs"

definition int_of_digits :: "string \<Rightarrow> int" where
  "int_of_digits s = digits_val 0 s"

text \<open>\<^verbatim>\<open>int(s)\<close>: \<open>None\<close> is the \<^verbatim>\<open>ValueError\<close> of a text that is not made of digits.\<close>

definition py_int :: "string \<Rightarrow> int option" where
  "py_int s = (if str_isdigit s then Some (int_of_digits s) else None)"

text \<open>The syntax \<^verbatim>\<open>float\<close> accepts: blanks around, a sign, then digits (single
  underscores between digits allowed) with an optional fraction, or a fraction alone, and
  an optional exponent. Groups: 2 the integer part, 3 the fraction, 4 the sign of the
  exponent, 5 the exponent.\<close>

definition digitpart :: rx where
  "digitpart = Seq dg (star (Seq (opt (ch CHR ''_'')) dg))"

definition unsigned_rx :: rx where
  "unsigned_rx = cat [
     alts [cat [Grp 2 digitpart, opt (Seq (ch CHR ''.'') (opt (Grp 3 digitpart)))],
           Seq (ch CHR ''.'') (Grp 3 digitpart)],
     opt (cat [Chars [Lit CHR ''e'', Lit CHR ''E''],
               Grp 4 (opt (Chars [Lit CHR ''+'', Lit CHR ''-''])), Grp 5 digitpart]),
     Eol]"

definition group_or :: "rmatch \<Rightarrow> nat \<Rightarrow> string \<Rightarrow> string" where
  "group_or m n d = (case group m n of None \<Rightarrow> d | Some t \<Rightarrow> t)"

text \<open>The number without its sign.\<close>

definition unsigned_float :: "string \<Rightarrow> rat option" where
  "unsigned_float s =
     (case re_match False unsigned_rx s of
        None \<Rightarrow> None
      | Some m \<Rightarrow>
          let fp = remove_char CHR ''_'' (group_or m 3 []);
              ex = int_of_digits (remove_char CHR ''_'' (group_or m 5 []));
              e = (if group_or m 4 [] = ''-'' then - ex else ex)
          in case py_int (remove_char CHR ''_'' (group_or m 2 []) @ fp) of
               None \<Rightarrow> None
             | Some n \<Rightarrow> to_double (of_int n * pow10 (e - int (length fp))))"

definition py_float :: "string \<Rightarrow> rat option" where
  "py_float s =
     (case str_strip s of
        [] \<Rightarrow> None
      | c # cs \<Rightarrow>
          if c = CHR ''-'' then map_option uminus (unsigned_float cs)
          else if c = CHR ''+'' then unsigned_float cs
          else unsigned_float (c # cs))"

text \<open>\<^verbatim>\<open>f"{amount:,.2f}"\<close> for an amount that is not negative: the value rounded to two
  decimals, the integer part in groups of three digits.\<close>

function show_int :: "int \<Rightarrow> string" where
  "show_int n =
     (if n < 10 then [char_of (48 + n)] else show_int (n div 10) @ [char_of (48 + n mod 10)])"
  by pat_completeness auto
termination
  by (relation "measure nat") auto

declare show_int.simps [simp del]

definition zfill :: "nat \<Rightarrow> string \<Rightarrow> string" where
  "zfill w s = replicate (w - length s) CHR ''0'' @ s"

function group3 :: "int \<Rightarrow> string" where
  "group3 n =
     (if n < 1000 then show_int n
      else group3 (n div 1000) @ '','' @ zfill 3 (show_int (n mod 1000)))"
  by pat_completeness auto
termination
  by (relation "measure nat") auto

declare group3.simps [simp del]

definition format_2f :: "rat \<Rightarrow> string" where
  "format_2f x =
     (let c = round_half_even (\<bar>x\<bar> * 100) in
      (if x < 0 then ''-'' else []) @ group3 (c div 100) @ ''.'' @ zfill 2 (show_int (c mod 100)))"

section \<open>The linguistic analyzer\<close>

text \<open>
  \<^verbatim>\<open>nlp\<close> is the spaCy pipeline loaded when the module is imported. The parser reads,
  of the document it returns, the tokens (\<^verbatim>\<open>text\<close>, \<^verbatim>\<open>lemma_\<close>, \<^verbatim>\<open>pos_\<close>,
  \<^verbatim>\<open>like_num\<close>, \<^verbatim>\<open>ent_type_\<close>), the entities (\<^verbatim>\<open>label_\<close>, \<^verbatim>\<open>start_char\<close>,
  \<^verbatim>\<open>text\<close>) and the noun chunks (the index of the head of the root, the dependency of the
  root, the texts of the tokens). The analyzer is a parameter of the model: a function
  from a text to a document, or to the exception it raises.
\<close>

datatype exn = OverflowError | AnalyzerError string

record token =
  tok_text :: string
  tok_lemma :: string
  tok_pos :: string
  like_num :: bool
  ent_type :: string

record entity =
  ent_label :: string
  start_char :: nat
  ent_text :: string

record chunk =
  root_head :: nat
  root_dep :: string
  chunk_words :: "string list"

record doc =
  tokens :: "token list"
  ents :: "entity list"
  noun_chunks :: "chunk list"

type_synonym analyzer = "string \<Rightarrow> exn + doc"

section \<open>The pattern library\<close>

text \<open>\<^verbatim>\<open>FINANCIAL_PATTERNS["transaction_indicators"]\<close>, compiled with \<^verbatim>\<open>re.IGNORECASE\<close>:
  \<^verbatim>\<open>\b(debited|credited|paid|sent|received|transfer|recharge|withdrawn|billed|utilized|charged|repayment|emi|purchase)\b\<close>\<close>

definition transaction_indicators_rx :: rx where
  "transaction_indicators_rx = cat [WordB,
     Grp 1 (alts (map lit [''debited'', ''credited'', ''paid'', ''sent'', ''received'',
       ''transfer'', ''recharge'', ''withdrawn'', ''billed'', ''utilized'', ''charged'',
       ''repayment'', ''emi'', ''purchase''])),
     WordB]"

text \<open>\<^verbatim>\<open>FINANCIAL_PATTERNS["reference"]\<close>, with \<^verbatim>\<open>re.IGNORECASE\<close>:
  \<^verbatim>\<open>\b(?:ref|txn|trans|upi|trf|id|crn|urn)[:\-]?\s*[a-z0-9]{5,20}\b\<close>\<close>

definition reference_rx :: rx where
  "reference_rx = cat [WordB,
     alts (map lit [''ref'', ''txn'', ''trans'', ''upi'', ''trf'', ''id'', ''crn'', ''urn'']),
     opt (Chars [Lit CHR '':'', Lit CHR ''-'']), star ws,
     times 5 20 (Chars [Low, Dig]), WordB]"

text \<open>The number of the amount and balance patterns:
  \<^verbatim>\<open>\d{1,3}(?:[.,]\d{3})*(?:[.,]\d{1,2})?\<close>\<close>

definition sep :: rx where
  "sep = Chars [Lit CHR ''.'', Lit CHR '','']"

definition number_rx :: rx where
  "number_rx = cat [times 1 3 dg, star (Seq sep (times 3 3 dg)), opt (Seq sep (times 1 2 dg))]"

text \<open>\<^verbatim>\<open>FINANCIAL_PATTERNS["balance"]\<close>, with \<^verbatim>\<open>re.IGNORECASE\<close>:
  \<^verbatim>\<open>(?:bal(?:ance)?|avail(?:able)?)(?:[:\-]|\s+of|\s+is)?\s*(rs|inr|usd|aed|eur)?\s*(\d{1,3}(?:[.,]\d{3})*(?:[.,]\d{1,2})?)\<close>\<close>

definition balance_rx :: rx where
  "balance_rx = cat [
     Alt (Seq (lit ''bal'') (opt (lit ''ance''))) (Seq (lit ''avail'') (opt (lit ''able''))),
     opt (alts [Chars [Lit CHR '':'', Lit CHR ''-''], Seq (plus ws) (lit ''of''),
                Seq (plus ws) (lit ''is'')]),
     star ws,
     opt (Grp 1 (alts (map lit [''rs'', ''inr'', ''usd'', ''aed'', ''eur'']))),
     star ws,
     Grp 2 number_rx]"

text \<open>The date patterns, with \<^verbatim>\<open>re.IGNORECASE\<close>:
  \<^verbatim>\<open>(\d{1,2})([a-z]{3})(\d{2,4})\<close>, \<^verbatim>\<open>(\d{1,2})[-/.](\d{1,2})[-/.](\d{2,4})\<close> and
  \<^verbatim>\<open>(\d{1,2})\s+([a-z]{3,9})\s+(\d{4})\<close>.\<close>

definition letter :: rx where
  "letter = Chars [Low]"

definition date_sep :: rx where
  "date_sep = Chars [Lit CHR ''-'', Lit CHR ''/'', Lit CHR ''.'']"

definition date_compact_rx :: rx where
  "date_compact_rx = cat [Grp 1 (times 1 2 dg), Grp 2 (times 3 3 letter), Grp 3 (times 2 4 dg)]"

definition date_standard_rx :: rx where
  "date_standard_rx =
     cat [Grp 1 (times 1 2 dg), date_sep, Grp 2 (times 1 2 dg), date_sep, Grp 3 (times 2 4 dg)]"

definition date_verbose_rx :: rx where
  "date_verbose_rx =
     cat [Grp 1 (times 1 2 dg), plus ws, Grp 2 (times 3 9 letter), plus ws, Grp 3 (times 4 4 dg)]"

text \<open>\<^verbatim>\<open>TRANSACTION_CATEGORIES\<close>: a dictionary, read in the order it is written. The
  providers of a category are a dictionary of aliases (loan), a list of names (insurance,
  recharge) or absent.\<close>

datatype providers = NoProviders | Aliases "(string \<times> string list) list" | Names "string list"

record config =
  config_keywords :: "string list"
  providers :: providers
  context_phrases :: "rx list option"
  exceptions :: "string list"
  exclusions :: "string list"

text \<open>The loan providers with their aliases, and the context phrases of a loan:
  \<^verbatim>\<open>repay\s+(?:rs|inr)?\s*\d+\.?\d*\<close>, \<^verbatim>\<open>credit\s+score\<close>, \<^verbatim>\<open>slice\s+app\<close>,
  \<^verbatim>\<open>airtel\s+black\s+id\<close>, \<^verbatim>\<open>emi\s+for\<close>, \<^verbatim>\<open>due\s+date\<close>.\<close>

definition loan_providers :: "(string \<times> string list) list" where
  "loan_providers = [
     (''slice'', [''slice'', ''pluxee'']),
     (''airtel'', [''airtel black'', ''airtel payments bank'']),
     (''hdfc'', [''hdfc credit'', ''hdfc bank credit'']),
     (''icici'', [''icici credit'', ''icici bank credit'']),
     (''kotak'', [''kotak credit'', ''kotak 811'']),
     (''cred'', [''cred'', ''cRED'']),
     (''lazyPay'', [''lazypay'', ''lazy pay'']),
     (''sbi'', [''sbi credit'', ''state bank credit''])]"

definition loan_context_phrases :: "rx list" where
  "loan_context_phrases = [
     cat [lit ''repay'', plus ws, opt (Alt (lit ''rs'') (lit ''inr'')), star ws, plus dg,
          opt (ch CHR ''.''), star dg],
     cat [lit ''credit'', plus ws, lit ''score''],
     cat [lit ''slice'', plus ws, lit ''app''],
     cat [lit ''airtel'', plus ws, lit ''black'', plus ws, lit ''id''],
     cat [lit ''emi'', plus ws, lit ''for''],
     cat [lit ''due'', plus ws, lit ''date'']]"

definition loan_config :: config where
  "loan_config = \<lparr>
     config_keywords = [''loan'', ''emi'', ''equated monthly installment'', ''repayment'',
       ''disbursement'', ''borrow'', ''lend'', ''credit limit'', ''credit line'',
       ''credit score'', ''creditline'', ''pre-approved'', ''sanctioned'', ''borrow limit'',
       ''loan a/c'', ''loan account''],
     providers = Aliases loan_providers,
     context_phrases = Some loan_context_phrases,
     exceptions = [],
     exclusions = []\<rparr>"

definition credit_config :: config where
  "credit_config = \<lparr>
     config_keywords = [''credited'', ''received'', ''load'', ''added'', ''topped up'', ''deposit'',
       ''income'', ''salary'', ''recredited'', ''refund'', ''reversal'', ''cashback'',
       ''interest'', ''bonus'', ''credit'', ''reimbursed'', ''transfer received'',
       ''funds added'', ''amount credited'', ''deposit successful''],
     providers = NoProviders,
     context_phrases = None,
     exceptions = [''reversal of credit'', ''credit card payment'', ''credit score'',
       ''credit limit'', ''credit line'', ''creditline''],
     exclusions = []\<rparr>"

definition debit_config :: config where
  "debit_config = \<lparr>
     config_keywords = [''debited'', ''spent'', ''withdrawn'', ''paid'', ''sent'', ''deducted'',
       ''purchase'', ''billed'', ''used'', ''withdrew'', ''transfer'', ''payment'',
       ''utilized'', ''charged'', ''reversal'', ''outstanding'', ''minimum due'',
       ''past due'', ''overdue'', ''amount debited'', ''transaction successful''],
     providers = NoProviders,
     context_phrases = None,
     exceptions = [''reversal of debit'', ''credit card payment'', ''emi payment''],
     exclusions = []\<rparr>"

definition investment_config :: config where
  "investment_config = \<lparr>
     config_keywords = [''mf'', ''mutual fund'', ''sip'', ''stock'', ''equity'', ''investment'',
       ''portfolio'', ''groww'', ''coin'', ''zerodha'', ''upstox'', ''mf red'',
       ''mutualfund'', ''investment account''],
     providers = NoProviders,
     context_phrases = Some [
       cat [lit ''mf'', plus ws, lit ''investment''],
       cat [lit ''sip'', plus ws, lit ''on''],
       cat [lit ''stock'', plus ws, lit ''purchased'']],
     exceptions = [],
     exclusions = []\<rparr>"

definition insurance_config :: config where
  "insurance_config = \<lparr>
     config_keywords = [''insurance'', ''premium'', ''policy'', ''claim'', ''renewal'', ''term plan'',
       ''health insurance'', ''life insurance'', ''car insurance'', ''bike insurance''],
     providers = Names [''lic'', ''bharti axa'', ''hdfc ergo'', ''icici lombard'', ''tata aig''],
     context_phrases = None,
     exceptions = [],
     exclusions = []\<rparr>"

definition emi_config :: config where
  "emi_config = \<lparr>
     config_keywords = [''emi'', ''equated monthly installment'', ''installment'', ''emi payment'',
       ''emi due'', ''emi processed'', ''emi debited''],
     providers = NoProviders,
     context_phrases = Some [
       cat [lit ''emi'', plus ws, lit ''for'', plus ws, plus (Chars [Wrd])],
       cat [lit ''emi'', plus ws, lit ''processed'', plus ws, lit ''for'']],
     exceptions = [],
     exclusions = []\<rparr>"

definition recharge_config :: config where
  "recharge_config = \<lparr>
     config_keywords = [''recharge'', ''topup'', ''top-up'', ''validity'', ''mobile recharge'',
       ''dth recharge'', ''data pack'', ''voice plan'', ''renewal''],
     providers = Names [''airtel'', ''jio'', ''vi'', ''vodafone'', ''idea'', ''bsnl'', ''reliance''],
     context_phrases = None,
     exceptions = [],
     exclusions = []\<rparr>"

definition atm_config :: config where
  "atm_config = \<lparr>
     config_keywords = [''atm'', ''cash withdrawal'', ''cash withdraw'', ''withdrawn at atm'',
       ''atm transaction'', ''atm withdrawal''],
     providers = NoProviders,
     context_phrases = None,
     exceptions = [],
     exclusions = []\<rparr>"

definition cheque_config :: config where
  "cheque_config = \<lparr>
     config_keywords = [''cheque'', ''check'', ''cheque deposit'', ''cheque cleared'',
       ''cheque bounce'', ''cheque issued''],
     providers = NoProviders,
     context_phrases = None,
     exceptions = [],
     exclusions = []\<rparr>"

definition informational_config :: config where
  "informational_config = \<lparr>
     config_keywords = [''balance'', ''fund balance'', ''security balance'', ''portfolio'',
       ''update'', ''notification'', ''alert'', ''reminder'', ''promotional'', ''offer'',
       ''deal'', ''price'', ''rate'', ''buy'', ''sell'', ''investment opportunity'',
       ''market update''],
     providers = NoProviders,
     context_phrases = None,
     exceptions = [],
     exclusions = [''debited'', ''credited'', ''paid'', ''sent'', ''received'', ''transfer'',
       ''recharge'', ''withdrawn'', ''billed'', ''utilized'', ''charged'', ''repayment'',
       ''emi'']\<rparr>"

definition TRANSACTION_CATEGORIES :: "(string \<times> config) list" where
  "TRANSACTION_CATEGORIES = [
     (''loan'', loan_config), (''credit'', credit_config), (''debit'', debit_config),
     (''investment'', investment_config), (''insurance'', insurance_config),
     (''emi'', emi_config), (''recharge'', recharge_config), (''atm'', atm_config),
     (''cheque'', cheque_config), (''informational'', informational_config)]"

text \<open>\<^verbatim>\<open>CURRENCY_CODES\<close>, in the order it is written.\<close>

definition CURRENCY_CODES :: "(string \<times> string) list" where
  "CURRENCY_CODES = [
     (''rs'', ''INR''), (''inr'', ''INR''), ([CHR 0xE2, CHR 0x82, CHR 0xB9], ''INR''),
     (''usd'', ''USD''), (''$'', ''USD''), (''dollars'', ''USD''),
     (''aed'', ''AED''), (''dirhams'', ''AED''),
     (''eur'', ''EUR''), ([CHR 0xE2, CHR 0x82, CHR 0xAC], ''EUR''), (''euros'', ''EUR''),
     (''gbp'', ''GBP''), ([CHR 0xC2, CHR 0xA3], ''GBP''), (''pounds'', ''GBP''),
     (''sgd'', ''SGD''), (''singapore dollars'', ''SGD''),
     (''jpy'', ''JPY''), ([CHR 0xC2, CHR 0xA5], ''JPY''), (''yen'', ''JPY'')]"

section \<open>The transaction classifier\<close>

text \<open>\<^verbatim>\<open>is_transactional_message\<close>: an indicator word, a verb of the analyzer among the
  transaction verbs, a context word followed by a number within 30 characters, or a
  reference number.\<close>

definition transaction_verbs :: "string list" where
  "transaction_verbs = [''pay'', ''send'', ''transfer'', ''spend'', ''use'', ''purchase'',
     ''withdraw'', ''recharge'']"

definition has_transaction_verb :: "doc \<Rightarrow> bool" where
  "has_transaction_verb d =
     list_ex (\<lambda>t. tok_lemma t \<in> set transaction_verbs \<and> tok_pos t = ''VERB'') (tokens d)"

definition amount_indicators :: "string list" where
  "amount_indicators = [''by'', ''of'', ''for'', ''rs'', ''inr'', ''amount'', ''charged'']"

definition amount_after :: "string \<Rightarrow> string \<Rightarrow> bool" where
  "amount_after text_lower indicator =
     (case str_find indicator text_lower of
        None \<Rightarrow> False
      | Some i \<Rightarrow>
          let pos = i + length indicator in
          pos < length text_lower
          \<and> re_search False number_rx (slice text_lower pos (pos + 30)) \<noteq> None)"

definition is_transactional_message :: "analyzer \<Rightarrow> string \<Rightarrow> exn + bool" where
  "is_transactional_message nlp text =
     (let text_lower = str_lower text in
      if re_search True transaction_indicators_rx text_lower \<noteq> None then Inr True
      else case nlp text_lower of
        Inl e \<Rightarrow> Inl e
      | Inr d \<Rightarrow>
          if has_transaction_verb d then Inr True
          else if list_ex (amount_after text_lower) amount_indicators then Inr True
          else if re_search True reference_rx text_lower \<noteq> None then Inr True
          else Inr False)"

text \<open>A classification: category, subcategory and confidence.\<close>

type_synonym verdict = "string \<times> string \<times> rat"

text \<open>The text the keywords are looked up in:
  \<^verbatim>\<open>re.sub(r"\s+", " ", re.sub(r"[^\w\s]", " ", text.lower())).strip()\<close>\<close>

definition normalize :: "string \<Rightarrow> string" where
  "normalize text =
     str_strip (re_sub False (plus ws) '' ''
       (re_sub False (NotChars [Wrd, Spc]) '' '' (str_lower text)))"

definition any_search :: "rx list \<Rightarrow> string \<Rightarrow> bool" where
  "any_search ps s = list_ex (\<lambda>p. re_search False p s \<noteq> None) ps"

definition any_in :: "string list \<Rightarrow> string \<Rightarrow> bool" where
  "any_in ns s = list_ex (\<lambda>n. str_in n s) ns"

text \<open>The first provider, in the order of the table, one of whose aliases is in the text.\<close>

definition find_provider :: "(string \<times> string list) list \<Rightarrow> string \<Rightarrow> string option" where
  "find_provider ps text_lower =
     map_option fst (List.find (\<lambda>pa. any_in (snd pa) text_lower) ps)"

text \<open>Step 2, at a keyword of a category that is in the text: with context phrases and one
  of them found, the provider of a loan at 0.95 or the category at 0.90; in every other
  case the statement after the \<^verbatim>\<open>if\<close> is reached, which returns the category at 0.85.\<close>

definition on_keyword :: "string \<Rightarrow> config \<Rightarrow> string \<Rightarrow> verdict" where
  "on_keyword category cfg text_lower =
     (case context_phrases cfg of
        Some ps \<Rightarrow>
          if any_search ps text_lower then
            (case (if category = ''loan'' then providers cfg else NoProviders) of
               Aliases al \<Rightarrow>
                 (case find_provider al text_lower of
                    Some provider \<Rightarrow> (category, provider, 0.95)
                  | None \<Rightarrow> (category, [], 0.90))
             | _ \<Rightarrow> (category, [], 0.90))
          else (category, [], 0.85)
      | None \<Rightarrow> (category, [], 0.85))"

fun scan_keywords :: "string \<Rightarrow> config \<Rightarrow> string \<Rightarrow> string list \<Rightarrow> verdict option" where
  "scan_keywords category cfg text_lower [] = None"
| "scan_keywords category cfg text_lower (kw # kws) =
     (if str_in kw text_lower then Some (on_keyword category cfg text_lower)
      else scan_keywords category cfg text_lower kws)"

fun specialized_scan :: "string \<Rightarrow> (string \<times> config) list \<Rightarrow> verdict option" where
  "specialized_scan text_lower [] = None"
| "specialized_scan text_lower ((category, cfg) # others) =
     (if category \<in> set [''credit'', ''debit'', ''informational'']
      then specialized_scan text_lower others
      else case scan_keywords category cfg text_lower (config_keywords cfg) of
             Some v \<Rightarrow> Some v
           | None \<Rightarrow> specialized_scan text_lower others)"

text \<open>Step 3, the second look at the loan keywords: a keyword returns only with a context
  phrase, else the next keyword is tried.\<close>

fun loan_recheck :: "string \<Rightarrow> string list \<Rightarrow> verdict option" where
  "loan_recheck text_lower [] = None"
| "loan_recheck text_lower (kw # kws) =
     (if str_in kw text_lower \<and> any_search loan_context_phrases text_lower then
        Some (case find_provider loan_providers text_lower of
                Some provider \<Rightarrow> (''loan'', provider, 0.95)
              | None \<Rightarrow> (''loan'', ''generic'', 0.90))
      else loan_recheck text_lower kws)"

text \<open>Steps 4 and 5, the credit and debit keywords.\<close>

fun credit_scan :: "string \<Rightarrow> string list \<Rightarrow> verdict option" where
  "credit_scan text_lower [] = None"
| "credit_scan text_lower (kw # kws) =
     (if str_in kw text_lower \<and> \<not> any_in (exceptions credit_config) text_lower then
        Some (if str_in ''emi'' text_lower \<and> str_in ''credit'' text_lower
              then (''emi'', ''credit'', 0.85) else (''credit'', [], 0.80))
      else credit_scan text_lower kws)"

fun debit_scan :: "string \<Rightarrow> string list \<Rightarrow> verdict option" where
  "debit_scan text_lower [] = None"
| "debit_scan text_lower (kw # kws) =
     (if str_in kw text_lower \<and> \<not> any_in (exceptions debit_config) text_lower then
        Some (if str_in ''emi'' text_lower then (''emi'', ''debit'', 0.85)
              else if str_in ''upi'' text_lower then (''debit'', ''upi'', 0.80)
              else if str_in ''atm'' text_lower then (''debit'', ''atm'', 0.80)
              else if str_in ''pos'' text_lower \<or> str_in ''swipe'' text_lower
                   then (''debit'', ''pos'', 0.80)
              else (''debit'', ''general'', 0.75))
      else debit_scan text_lower kws)"

text \<open>Steps 4 to 6.\<close>

definition basic_scan :: "string \<Rightarrow> verdict" where
  "basic_scan text_lower =
     (case credit_scan text_lower (config_keywords credit_config) of
        Some v \<Rightarrow> v
      | None \<Rightarrow>
          (case debit_scan text_lower (config_keywords debit_config) of
             Some v \<Rightarrow> v
           | None \<Rightarrow> (''debit'', ''general'', 0.70)))"

definition detect_category :: "analyzer \<Rightarrow> string \<Rightarrow> exn + verdict" where
  "detect_category nlp text =
     (let text_lower = normalize text in
      case is_transactional_message nlp text of
        Inl e \<Rightarrow> Inl e
      | Inr transactional \<Rightarrow>
          if \<not> transactional then Inr (''informational'', ''general'', 0.95)
          else Inr (case specialized_scan text_lower TRANSACTION_CATEGORIES of
                      Some v \<Rightarrow> v
                    | None \<Rightarrow>
                        (case loan_recheck text_lower (config_keywords loan_config) of
                           Some v \<Rightarrow> v
                         | None \<Rightarrow> basic_scan text_lower)))"

text \<open>The classifier without its step 3.\<close>

definition detect_category_without_recheck :: "analyzer \<Rightarrow> string \<Rightarrow> exn + verdict" where
  "detect_category_without_recheck nlp text =
     (let text_lower = normalize text in
      case is_transactional_message nlp text of
        Inl e \<Rightarrow> Inl e
      | Inr transactional \<Rightarrow>
          if \<not> transactional then Inr (''informational'', ''general'', 0.95)
          else Inr (case specialized_scan text_lower TRANSACTION_CATEGORIES of
                      Some v \<Rightarrow> v
                    | None \<Rightarrow> basic_scan text_lower))"

section \<open>The amount extractor\<close>

text \<open>A money value as the extractors return it: the dictionary with the keys
  \<^verbatim>\<open>value\<close>, \<^verbatim>\<open>currency\<close> and \<^verbatim>\<open>formatted\<close>.\<close>

record monetary =
  amount_value :: rat
  amount_currency :: string
  amount_formatted :: string

definition monetary_of :: "rat \<Rightarrow> string \<Rightarrow> monetary" where
  "monetary_of amount cur =
     \<lparr>amount_value = amount, amount_currency = cur,
      amount_formatted = cur @ '' '' @ format_2f amount\<rparr>"

text \<open>\<^verbatim>\<open>1 <= amount <= 10_000_000\<close>\<close>

definition plausible :: "rat \<Rightarrow> bool" where
  "plausible amount = (1 \<le> amount \<and> amount \<le> 10000000)"

text \<open>The currency of an amount: the code of the first key of \<^verbatim>\<open>CURRENCY_CODES\<close> that is
  in the text, \<^verbatim>\<open>INR\<close> when there is none.\<close>

definition resolve_currency :: "string \<Rightarrow> string" where
  "resolve_currency text_lower =
     (case List.find (\<lambda>kc. str_in (fst kc) text_lower) CURRENCY_CODES of
        Some kc \<Rightarrow> snd kc
      | None \<Rightarrow> ''INR'')"

definition amount_context_words :: "string list" where
  "amount_context_words = [''by'', ''of'', ''for'', ''rs'', ''inr'', ''amount'', ''charged'',
     ''debited'', ''credited'']"

text \<open>The pattern of stage 1: \<^verbatim>\<open>(\d{1,3}(?:,\d{3})*(?:\.\d{1,2})?|\d+\.\d{1,2}|\d+)\<close>\<close>

definition grouped_number_rx :: rx where
  "grouped_number_rx = cat [times 1 3 dg, star (Seq (ch CHR '','') (times 3 3 dg)),
     opt (Seq (ch CHR ''.'') (times 1 2 dg))]"

definition amount_pattern :: rx where
  "amount_pattern = Grp 1 (alts [grouped_number_rx,
     cat [plus dg, ch CHR ''.'', times 1 2 dg], plus dg])"

text \<open>Stage 1, the body of the loop for one context word: the number found in the 30
  characters after the first occurrence of the word, with its position in the text, unless
  it is out of range, follows \<^verbatim>\<open>X\<close>, \<^verbatim>\<open>x\<close> or \<^verbatim>\<open>#\<close>, or is followed by a
  character that is neither whitespace nor one of \<^verbatim>\<open>. , ) ] }\<close>. The number read lies
  in the text, so the characters before and after it are read within the text.\<close>

definition candidate :: "string \<Rightarrow> string \<Rightarrow> (rat \<times> nat) option" where
  "candidate text indicator =
     (case str_find indicator (str_lower text) of
        None \<Rightarrow> None
      | Some i \<Rightarrow>
          let pos = i + length indicator;
              context = slice text pos (pos + 30)
          in case re_search False amount_pattern context of
               None \<Rightarrow> None
             | Some m \<Rightarrow>
                 (case py_float (remove_char CHR '','' (group_or m 1 [])) of
                    None \<Rightarrow> None
                  | Some amount \<Rightarrow>
                      let actual_pos = pos + m_start m;
                          after_pos = actual_pos + length (m_text m)
                      in if \<not> plausible amount then None
                         else if 0 < actual_pos \<and> text ! (actual_pos - 1) \<in> set ''Xx#''
                              then None
                         else if after_pos < length text
                                 \<and> \<not> is_space (text ! after_pos)
                                 \<and> text ! after_pos \<notin> set ''.,)]}''
                              then None
                         else Some (amount, actual_pos)))"

definition indicator_scan :: "string \<Rightarrow> (rat \<times> nat) list" where
  "indicator_scan text = List.map_filter (candidate text) amount_context_words"

text \<open>Stage 2: the entities labelled \<^verbatim>\<open>MONEY\<close> with a context word in the 50 characters
  before them.\<close>

definition clean_amt :: "string \<Rightarrow> string" where
  "clean_amt s = re_sub False (NotChars [Dig, Lit CHR ''.'']) [] s"

fun money_scan :: "string \<Rightarrow> entity list \<Rightarrow> monetary option" where
  "money_scan text_lower [] = None"
| "money_scan text_lower (ent # more_ents) =
     (if ent_label ent = ''MONEY''
         \<and> any_in amount_context_words
              (slice text_lower (start_char ent - 50) (start_char ent))
         \<and> str_isdigit (remove_first CHR ''.'' (clean_amt (ent_text ent)))
      then (case py_float (clean_amt (ent_text ent)) of
              None \<Rightarrow> money_scan text_lower more_ents
            | Some amount \<Rightarrow>
                if plausible amount
                then Some (monetary_of amount (resolve_currency text_lower))
                else money_scan text_lower more_ents)
      else money_scan text_lower more_ents)"

text \<open>Stage 3: \<^verbatim>\<open>(?:rs\.?\s*|inr\s*)(\d{1,3}(?:,\d{3})*(?:\.\d{1,2})?)\b\<close>\<close>

definition prefixed_amount_rx :: rx where
  "prefixed_amount_rx = cat [
     Alt (cat [lit ''rs'', opt (ch CHR ''.''), star ws]) (Seq (lit ''inr'') (star ws)),
     Grp 1 grouped_number_rx, WordB]"

definition prefixed_scan :: "string \<Rightarrow> monetary option" where
  "prefixed_scan text_lower =
     (case re_search False prefixed_amount_rx text_lower of
        None \<Rightarrow> None
      | Some m \<Rightarrow>
          (case py_float (remove_char CHR '','' (group_or m 1 [])) of
             None \<Rightarrow> None
           | Some amount \<Rightarrow>
               if plausible amount
               then Some (monetary_of amount (resolve_currency text_lower))
               else None))"

text \<open>Stage 4: the first token that looks like a number, is no date, does not follow a
  token of one letter (\<^verbatim>\<open>^[a-zA-Z]$\<close>) and is in range. \<open>prev\<close> is the token before,
  \<open>None\<close> at the first token.\<close>

definition single_letter_rx :: rx where
  "single_letter_rx = cat [Bol, Chars [Low, Upp], Eol]"

fun token_scan :: "token option \<Rightarrow> token list \<Rightarrow> monetary option" where
  "token_scan prev [] = None"
| "token_scan prev (t # ts) =
     (if like_num t \<and> ent_type t \<noteq> ''DATE''
      then (case py_float (remove_char CHR '','' (tok_text t)) of
              None \<Rightarrow> token_scan (Some t) ts
            | Some amount \<Rightarrow>
                if (case prev of
                      None \<Rightarrow> False
                    | Some p \<Rightarrow> re_match False single_letter_rx (tok_text p) \<noteq> None)
                then token_scan (Some t) ts
                else if plausible amount then Some (monetary_of amount ''INR'')
                else token_scan (Some t) ts)
      else token_scan (Some t) ts)"

definition extract_amount :: "analyzer \<Rightarrow> string \<Rightarrow> exn + monetary option" where
  "extract_amount nlp text =
     (let text_lower = str_lower text in
      case sort_key snd (indicator_scan text) of
        (amount, p) # others \<Rightarrow> Inr (Some (monetary_of amount (resolve_currency text_lower)))
      | [] \<Rightarrow>
          (case nlp text of
             Inl e \<Rightarrow> Inl e
           | Inr d \<Rightarrow>
               (case money_scan text_lower (ents d) of
                  Some a \<Rightarrow> Inr (Some a)
                | None \<Rightarrow>
                    (case prefixed_scan text_lower of
                       Some a \<Rightarrow> Inr (Some a)
                     | None \<Rightarrow> Inr (token_scan None (tokens d))))))"

section \<open>The balance and reference extractors\<close>

text \<open>\<^verbatim>\<open>extract_balance\<close>: every match of the balance pattern whose number \<^verbatim>\<open>float\<close>
  reads, sorted by position; the first one is returned, its currency looked up in
  \<^verbatim>\<open>CURRENCY_CODES\<close>. The value is not compared with any bound.\<close>

definition balance_of_match :: "rmatch \<Rightarrow> (rat \<times> string \<times> nat) option" where
  "balance_of_match m =
     (let cur = (case group m 1 of None \<Rightarrow> ''INR'' | Some c \<Rightarrow> if c = [] then ''INR'' else c)
      in case py_float (remove_char CHR '','' (group_or m 2 [])) of
           None \<Rightarrow> None
         | Some amount \<Rightarrow> Some (amount, cur, m_start m))"

definition extract_balance :: "string \<Rightarrow> monetary option" where
  "extract_balance text =
     (case sort_key (\<lambda>b. snd (snd b))
             (List.map_filter balance_of_match (re_finditer True balance_rx text)) of
        [] \<Rightarrow> None
      | (amount, cur, p) # others \<Rightarrow>
          Some (monetary_of amount
                  (case map_of CURRENCY_CODES (str_lower cur) of
                     Some c \<Rightarrow> c
                   | None \<Rightarrow> str_upper cur)))"

text \<open>\<^verbatim>\<open>extract_reference\<close>: the reference found, \<^verbatim>\<open>[:\-]\s*\<close> and runs of whitespace
  turned into one space, stripped, in upper case.\<close>

definition extract_reference :: "string \<Rightarrow> string option" where
  "extract_reference text =
     (case re_search True reference_rx text of
        None \<Rightarrow> None
      | Some m \<Rightarrow>
          Some (str_upper (str_strip
            (re_sub False (plus ws) '' ''
               (re_sub False (Seq (Chars [Lit CHR '':'', Lit CHR ''-'']) (star ws)) '' ''
                  (m_text m))))))"

section \<open>Dates\<close>

text \<open>A \<^verbatim>\<open>datetime\<close> without time zone. The year of a \<^verbatim>\<open>datetime\<close> lies between 1 and
  9999; arithmetic that leaves this range raises \<^verbatim>\<open>OverflowError\<close>.\<close>

record datetime =
  year :: int
  month :: int
  day :: int
  hour :: int
  minute :: int
  second :: int
  microsecond :: int

definition is_leap :: "int \<Rightarrow> bool" where
  "is_leap y = (y mod 4 = 0 \<and> (if y mod 100 = 0 then y mod 400 = 0 else True))"

definition days_in_month :: "int \<Rightarrow> int \<Rightarrow> int" where
  "days_in_month y m =
     (if m = 2 then (if is_leap y then 29 else 28)
      else if m \<in> set [4, 6, 9, 11] then 30 else 31)"

definition valid_date :: "int \<Rightarrow> int \<Rightarrow> int \<Rightarrow> bool" where
  "valid_date y m d =
     (1 \<le> y \<and> y \<le> 9999 \<and> 1 \<le> m \<and> m \<le> 12 \<and> 1 \<le> d \<and> d \<le> days_in_month y m)"

definition valid_datetime :: "datetime \<Rightarrow> bool" where
  "valid_datetime t =
     (valid_date (year t) (month t) (day t) \<and> 0 \<le> hour t \<and> hour t < 24
      \<and> 0 \<le> minute t \<and> minute t < 60 \<and> 0 \<le> second t \<and> second t < 60
      \<and> 0 \<le> microsecond t \<and> microsecond t < 1000000)"

definition date_of :: "int \<Rightarrow> int \<Rightarrow> int \<Rightarrow> datetime" where
  "date_of y m d =
     \<lparr>year = y, month = m, day = d, hour = 0, minute = 0, second = 0, microsecond = 0\<rparr>"

definition next_day :: "datetime \<Rightarrow> exn + datetime" where
  "next_day t =
     (if day t < days_in_month (year t) (month t) then Inr (t\<lparr>day := day t + 1\<rparr>)
      else if month t < 12 then Inr (t\<lparr>month := month t + 1, day := 1\<rparr>)
      else if year t < 9999 then Inr (t\<lparr>year := year t + 1, month := 1, day := 1\<rparr>)
      else Inl OverflowError)"

definition prev_day :: "datetime \<Rightarrow> exn + datetime" where
  "prev_day t =
     (if 1 < day t then Inr (t\<lparr>day := day t - 1\<rparr>)
      else if 1 < month t
           then Inr (t\<lparr>month := month t - 1, day := days_in_month (year t) (month t - 1)\<rparr>)
      else if 1 < year t then Inr (t\<lparr>year := year t - 1, month := 12, day := 31\<rparr>)
      else Inl OverflowError)"

text \<open>\<^verbatim>\<open>t + timedelta(days=n)\<close>\<close>

function add_days :: "datetime \<Rightarrow> int \<Rightarrow> exn + datetime" where
  "add_days t n =
     (if n = 0 then Inr t
      else if 0 < n then (case next_day t of Inl e \<Rightarrow> Inl e | Inr u \<Rightarrow> add_days u (n - 1))
      else (case prev_day t of Inl e \<Rightarrow> Inl e | Inr u \<Rightarrow> add_days u (n + 1)))"
  by pat_completeness auto
termination
  by (relation "measure (\<lambda>(t, n). nat \<bar>n\<bar>)") auto

declare add_days.simps [simp del]

text \<open>\<^verbatim>\<open>t.strftime("%Y-%m-%d")\<close>: the year in four digits, month and day in two, as the
  documentation of \<^verbatim>\<open>datetime\<close> gives them. \<^verbatim>\<open>t.isoformat()\<close> adds the time, with the
  microseconds when they are not zero.\<close>

definition strftime_ymd :: "datetime \<Rightarrow> string" where
  "strftime_ymd t =
     zfill 4 (show_int (year t)) @ ''-'' @ zfill 2 (show_int (month t)) @ ''-''
     @ zfill 2 (show_int (day t))"

definition isoformat :: "datetime \<Rightarrow> string" where
  "isoformat t =
     strftime_ymd t @ ''T'' @ zfill 2 (show_int (hour t)) @ '':''
     @ zfill 2 (show_int (minute t)) @ '':'' @ zfill 2 (show_int (second t))
     @ (if microsecond t = 0 then [] else ''.'' @ zfill 6 (show_int (microsecond t)))"

text \<open>
  \<^verbatim>\<open>datetime.strptime(data, format)\<close>, for the directives the parser uses. The format is
  turned into a pattern: a directive into its group, a run of whitespace into \<^verbatim>\<open>\s+\<close>,
  any other character into itself. The pattern is matched, ignoring case, at the start of
  the data, and the match has to end where the data ends; the numbers read have to be a
  date. \<open>None\<close> is the \<^verbatim>\<open>ValueError\<close>. The groups: 1 for \<^verbatim>\<open>%d\<close>
  (\<^verbatim>\<open>3[0-1]|[1-2]\d|0[1-9]|[1-9]| [1-9]\<close>), 2 for \<^verbatim>\<open>%m\<close> (\<^verbatim>\<open>1[0-2]|0[1-9]|[1-9]\<close>),
  3 for \<^verbatim>\<open>%Y\<close> (\<^verbatim>\<open>\d\d\d\d\<close>), 4 for \<^verbatim>\<open>%b\<close> and 5 for \<^verbatim>\<open>%B\<close> (the names of the
  months).
\<close>

definition month_abbrs :: "string list" where
  "month_abbrs = [''jan'', ''feb'', ''mar'', ''apr'', ''may'', ''jun'', ''jul'', ''aug'',
     ''sep'', ''oct'', ''nov'', ''dec'']"

definition month_names :: "string list" where
  "month_names = [''january'', ''february'', ''march'', ''april'', ''may'', ''june'', ''july'',
     ''august'', ''september'', ''october'', ''november'', ''december'']"

text \<open>The alternatives of a list of names, the longest first.\<close>

definition seq_to_rx :: "string list \<Rightarrow> rx" where
  "seq_to_rx names = alts (map lit (sort_key (\<lambda>w. - int (length w)) names))"

definition one_of :: "string \<Rightarrow> rx" where
  "one_of s = Chars (map Lit s)"

definition directive_rx :: "char \<Rightarrow> rx" where
  "directive_rx c =
     (if c = CHR ''d'' then
        Grp 1 (alts [Seq (ch CHR ''3'') (one_of ''01''),
                     Seq (one_of ''12'') dg,
                     Seq (ch CHR ''0'') (one_of ''123456789''),
                     one_of ''123456789'',
                     Seq (ch CHR '' '') (one_of ''123456789'')])
      else if c = CHR ''m'' then
        Grp 2 (alts [Seq (ch CHR ''1'') (one_of ''012''),
                     Seq (ch CHR ''0'') (one_of ''123456789''),
                     one_of ''123456789''])
      else if c = CHR ''Y'' then Grp 3 (times 4 4 dg)
      else if c = CHR ''b'' then Grp 4 (seq_to_rx month_abbrs)
      else if c = CHR ''B'' then Grp 5 (seq_to_rx month_names)
      else Chars [])"

fun format_rx :: "string \<Rightarrow> rx" where
  "format_rx [] = Eps"
| "format_rx [c] = (if is_space c then plus ws else ch c)"
| "format_rx (c # d # cs) =
     (if c = CHR ''%'' then Seq (directive_rx d) (format_rx cs)
      else if is_space c then
        (if is_space d then format_rx (d # cs) else Seq (plus ws) (format_rx (d # cs)))
      else Seq (ch c) (format_rx (d # cs)))"

text \<open>The number of a month name: its place in the list, from 1.\<close>

fun index_of :: "string \<Rightarrow> string list \<Rightarrow> int option" where
  "index_of w [] = None"
| "index_of w (x # xs) = (if w = x then Some 1 else map_option (\<lambda>i. i + 1) (index_of w xs))"

definition strptime :: "string \<Rightarrow> string \<Rightarrow> datetime option" where
  "strptime date_string fmt =
     (case re_match True (format_rx fmt) date_string of
        None \<Rightarrow> None
      | Some m \<Rightarrow>
          if m_end m \<noteq> length date_string then None
          else
            let y = int_of_digits (group_or m 3 []);
                d = int_of_digits (str_strip (group_or m 1 []));
                mon = (case group m 2 of
                         Some t \<Rightarrow> Some (int_of_digits t)
                       | None \<Rightarrow>
                           (case group m 4 of
                              Some t \<Rightarrow> index_of (str_lower t) month_abbrs
                            | None \<Rightarrow>
                                (case group m 5 of
                                   Some t \<Rightarrow> index_of (str_lower t) month_names
                                 | None \<Rightarrow> Some 1)))
            in case mon of
                 None \<Rightarrow> None
               | Some mo \<Rightarrow> if valid_date y mo d then Some (date_of y mo d) else None)"

section \<open>The date extractor\<close>

definition relative_dates :: "(string \<times> int) list" where
  "relative_dates = [(''today'', 0), (''yesterday'', - 1), (''tomorrow'', 1), (''now'', 0),
     (''just now'', 0), (''a moment ago'', 0)]"

text \<open>A year of two digits: below 50 in the 2000s, else in the 1900s.\<close>

definition full_year :: "string \<Rightarrow> string" where
  "full_year y =
     (if length y = 2 then (if int_of_digits y < 50 then ''20'' @ y else ''19'' @ y) else y)"

definition replace_char :: "char \<Rightarrow> char \<Rightarrow> string \<Rightarrow> string" where
  "replace_char a b s = map (\<lambda>c. if c = a then b else c) s"

text \<open>The first format, in the order of the list, that reads the date.\<close>

fun first_strptime :: "string \<Rightarrow> string list \<Rightarrow> datetime option" where
  "first_strptime date_string [] = None"
| "first_strptime date_string (fmt # fmts) =
     (case strptime date_string fmt of
        Some t \<Rightarrow> Some t
      | None \<Rightarrow> first_strptime date_string fmts)"

definition three_groups :: "rmatch \<Rightarrow> (string \<times> string \<times> string)" where
  "three_groups m = (group_or m 1 [], group_or m 2 [], group_or m 3 [])"

text \<open>Steps 2, 3 and 4: the compact, the standard and the verbose pattern.\<close>

definition compact_date :: "string \<Rightarrow> datetime option" where
  "compact_date text =
     (case re_search True date_compact_rx text of
        None \<Rightarrow> None
      | Some m \<Rightarrow>
          (case three_groups m of
             (d, month_abbr, y) \<Rightarrow>
               strptime (d @ '' '' @ month_abbr @ '' '' @ full_year y) ''%d %b %Y''))"

definition standard_formats :: "string list" where
  "standard_formats = [''%d/%m/%Y'', ''%m/%d/%Y'', ''%d-%m-%Y'', ''%m-%d-%Y'', ''%d.%m.%Y'',
     ''%m.%d.%Y'']"

definition standard_date :: "string \<Rightarrow> datetime option" where
  "standard_date text =
     (case re_search True date_standard_rx text of
        None \<Rightarrow> None
      | Some m \<Rightarrow>
          (case three_groups m of
             (p0, p1, p2) \<Rightarrow>
               first_strptime (p0 @ '' '' @ p1 @ '' '' @ full_year p2)
                 (map (\<lambda>fmt. replace_char CHR ''-'' CHR '' '' (replace_char CHR ''/'' CHR '' '' fmt))
                    standard_formats)))"

definition verbose_date :: "string \<Rightarrow> string list \<Rightarrow> datetime option" where
  "verbose_date text fmts =
     (case re_search True date_verbose_rx text of
        None \<Rightarrow> None
      | Some m \<Rightarrow>
          (case three_groups m of
             (d, mon, y) \<Rightarrow> first_strptime (d @ '' '' @ mon @ '' '' @ y) fmts))"

text \<open>Step 5: after the first occurrence of an indicator word, the verbose pattern in the
  next 30 characters.\<close>

fun indicator_date :: "string \<Rightarrow> string list \<Rightarrow> datetime option" where
  "indicator_date text [] = None"
| "indicator_date text (indicator # indicators) =
     (case str_find indicator (str_lower text) of
        None \<Rightarrow> indicator_date text indicators
      | Some pos \<Rightarrow>
          (case verbose_date (slice text (pos + length indicator) (pos + length indicator + 30))
                  [''%d %b %Y''] of
             Some t \<Rightarrow> Some t
           | None \<Rightarrow> indicator_date text indicators))"

text \<open>\<^verbatim>\<open>extract_date\<close>. \<open>today\<close> is what \<^verbatim>\<open>datetime.now()\<close> returns when the extractor
  calls it; \<^verbatim>\<open>sms_timestamp or datetime.now()\<close> is the timestamp when there is one.\<close>

definition base_time :: "datetime \<Rightarrow> datetime option \<Rightarrow> datetime" where
  "base_time today sms_timestamp = (case sms_timestamp of Some t \<Rightarrow> t | None \<Rightarrow> today)"

definition found_date :: "string \<Rightarrow> datetime option" where
  "found_date text =
     (case compact_date text of
        Some t \<Rightarrow> Some t
      | None \<Rightarrow>
          (case standard_date text of
             Some t \<Rightarrow> Some t
           | None \<Rightarrow>
               (case verbose_date text [''%d %B %Y'', ''%d %b %Y''] of
                  Some t \<Rightarrow> Some t
                | None \<Rightarrow> indicator_date text [''on'', ''date'', ''for'', ''by'', ''at''])))"

definition extract_date :: "datetime \<Rightarrow> string \<Rightarrow> datetime option \<Rightarrow> exn + string" where
  "extract_date today text sms_timestamp =
     (case List.find (\<lambda>r. str_in (fst r) (str_lower text)) relative_dates of
        Some r \<Rightarrow>
          (case add_days (base_time today sms_timestamp) (snd r) of
             Inl e \<Rightarrow> Inl e
           | Inr t \<Rightarrow> Inr (strftime_ymd t))
      | None \<Rightarrow>
          (case found_date text of
             Some t \<Rightarrow> Inr (strftime_ymd t)
           | None \<Rightarrow> Inr (strftime_ymd (base_time today sms_timestamp))))"

section \<open>The merchant extractor\<close>

definition MERCHANT_BLACKLIST :: "string set" where
  "MERCHANT_BLACKLIST = set [
     ''bank'', ''account'', ''a/c'', ''savings'', ''current'', ''balance'', ''available'',
     ''wallet'', ''upi'', ''refno'', ''reference'', ''id'', ''user'', ''app'', ''details'',
     ''call'', ''if not'', ''not you'', ''please'', ''contact'', ''customer care'',
     ''mobile'', ''recharge'', ''validity'', ''prepaid'', ''postpaid'', ''plan'',
     ''transaction'', ''amount'', ''rs'', ''inr'', ''usd'', ''aed'', ''eur'', ''date'',
     ''time'', ''location'', ''terminal'', ''pos'', ''card'', ''credit'', ''debit'',
     ''payment'', ''transfer'', ''to'', ''from'', ''at'', ''on'', ''for'', ''your'',
     ''account'', ''acc'', ''a/c'', ''xxx'', ''xx'', ''xxxx'', ''****'', ''card'',
     ''cardnumber'', ''crd'', ''crdno'', ''cardno'', ''card number'', ''cvv'',
     ''expiry'', ''exp'', ''valid'', ''thru'', ''thru date'', ''mm/yy'', ''mm/yy'',
     ''thank'', ''thanks'', ''regards'', ''team'', ''banking'', ''online'', ''app'',
     ''sms'', ''message'', ''alert'', ''notification'', ''service'', ''charges'',
     ''fund'', ''securities'', ''balance'', ''bal'', ''reported'', ''excludes'']"

definition letters_rx :: rx where
  "letters_rx = plus (Chars [Low, Upp])"

text \<open>For an informational message: \<^verbatim>\<open>on your ([a-zA-Z]+) App\<close> and
  \<^verbatim>\<open>only on ([a-zA-Z]+)\<close>, ignoring case, and \<^verbatim>\<open>^([A-Z\s]+) on\<close>.\<close>

definition informational_merchant :: "string \<Rightarrow> string option" where
  "informational_merchant text =
     (let text_lower = str_lower text;
          app = (if str_in ''app'' text_lower \<or> str_in ''buy'' text_lower
                    \<or> str_in ''sell'' text_lower
                 then (case re_search True (cat [lit ''on your '', Grp 1 letters_rx, lit '' App''])
                              text of
                         Some m \<Rightarrow> Some (group_or m 1 [] @ '' App'')
                       | None \<Rightarrow>
                           (case re_search True (Seq (lit ''only on '') (Grp 1 letters_rx)) text of
                              Some m \<Rightarrow> Some (group_or m 1 [] @ '' App'')
                            | None \<Rightarrow> None))
                 else None)
      in case app of
           Some a \<Rightarrow> Some a
         | None \<Rightarrow>
             if str_in ''balance'' text_lower \<or> str_in ''fund'' text_lower
             then (case re_search False
                          (cat [Bol, Grp 1 (plus (Chars [Upp, Spc])), lit '' on''])
                          text of
                     Some m \<Rightarrow> Some (str_strip (group_or m 1 []))
                   | None \<Rightarrow> None)
             else None)"

text \<open>The first provider of a list that is in the text, in title case with a suffix.\<close>

definition provider_merchant :: "string list \<Rightarrow> string \<Rightarrow> string \<Rightarrow> string \<Rightarrow> string" where
  "provider_merchant names suffix fallback text_lower =
     (case List.find (\<lambda>p. str_in p text_lower) names of
        Some p \<Rightarrow> str_title p @ suffix
      | None \<Rightarrow> fallback)"

definition names_of :: "providers \<Rightarrow> string list" where
  "names_of ps = (case ps of Names ns \<Rightarrow> ns | Aliases al \<Rightarrow> map fst al | NoProviders \<Rightarrow> [])"

text \<open>For a UPI debit: \<^verbatim>\<open>trf\s+to\s+([a-zA-Z0-9\s]{3,30})\<close> and the same after
  \<^verbatim>\<open>sent\<close>, \<^verbatim>\<open>paid\<close> and \<^verbatim>\<open>transfer\<close>, ignoring case; then \<^verbatim>\<open>\s+Ref.*$\<close> and
  \<^verbatim>\<open>\s+(?:UPI|ref|id|crn).*\<close> are cut off.\<close>

definition upi_rx :: "string \<Rightarrow> rx" where
  "upi_rx verb = cat [lit verb, plus ws, lit ''to'', plus ws,
     Grp 1 (times 3 30 (Chars [Low, Upp, Dig, Spc]))]"

fun upi_merchant :: "string \<Rightarrow> string list \<Rightarrow> string option" where
  "upi_merchant text [] = None"
| "upi_merchant text (verb # verbs) =
     (case re_search True (upi_rx verb) text of
        Some m \<Rightarrow>
          Some (str_title
            (re_sub False (cat [plus ws, alts (map lit [''UPI'', ''ref'', ''id'', ''crn'']),
                                star AnyChar]) []
               (re_sub False (cat [plus ws, lit ''Ref'', star AnyChar, Eol]) []
                  (str_strip (group_or m 1 [])))))
      | None \<Rightarrow> upi_merchant text verbs)"

text \<open>The general scan: after the first occurrence of an indicator word the next 50
  characters, cut at \<^verbatim>\<open>\b(?:ref|id|user|upi|rs|inr|amount|charged)\b.*\<close> (ignoring case),
  punctuation turned into spaces; of the first five words those of more than one character
  that are not in the blacklist, capitalized.\<close>

definition noise_rx :: rx where
  "noise_rx = cat [WordB,
     alts (map lit [''ref'', ''id'', ''user'', ''upi'', ''rs'', ''inr'', ''amount'', ''charged'']),
     WordB, star AnyChar]"

definition merchant_words :: "string \<Rightarrow> string list" where
  "merchant_words cand =
     map str_capitalize
       (filter (\<lambda>w. str_lower w \<notin> MERCHANT_BLACKLIST \<and> 1 < length w)
          (take 5 (str_split
             (re_sub False (NotChars [Wrd, Spc]) '' '' (re_sub True noise_rx [] cand)))))"

fun general_merchant :: "string \<Rightarrow> string list \<Rightarrow> string option" where
  "general_merchant text [] = None"
| "general_merchant text (indicator # indicators) =
     (case str_find indicator (str_lower text) of
        None \<Rightarrow> general_merchant text indicators
      | Some i \<Rightarrow>
          let pos = i + length indicator in
          if pos < length text \<and> merchant_words (slice text pos (pos + 50)) \<noteq> []
          then Some (str_strip (join_sp (merchant_words (slice text pos (pos + 50)))))
          else general_merchant text indicators)"

text \<open>The fallback on the analyzer: for a transaction verb, the first noun chunk whose root
  hangs on the verb as an object and keeps a word outside the blacklist. \<open>i\<close> is the index of
  the token.\<close>

fun chunk_merchant :: "nat \<Rightarrow> chunk list \<Rightarrow> string option" where
  "chunk_merchant i [] = None"
| "chunk_merchant i (c # cs) =
     (let words = map str_capitalize
                    (filter (\<lambda>w. str_lower w \<notin> MERCHANT_BLACKLIST) (chunk_words c))
      in if root_head c = i \<and> root_dep c \<in> set [''dobj'', ''pobj''] \<and> words \<noteq> []
         then Some (join_sp words)
         else chunk_merchant i cs)"

fun verb_merchant :: "doc \<Rightarrow> nat \<Rightarrow> token list \<Rightarrow> string option" where
  "verb_merchant d i [] = None"
| "verb_merchant d i (t # ts) =
     (if tok_lemma t \<in> set transaction_verbs \<and> tok_pos t = ''VERB''
      then (case chunk_merchant i (noun_chunks d) of
              Some w \<Rightarrow> Some w
            | None \<Rightarrow> verb_merchant d (Suc i) ts)
      else verb_merchant d (Suc i) ts)"

definition default_merchant :: "string \<Rightarrow> string" where
  "default_merchant text_lower =
     (if str_in ''atm'' text_lower then ''ATM Withdrawal''
      else if str_in ''pos'' text_lower \<or> str_in ''swipe'' text_lower then ''Card Purchase''
      else if str_in ''cheque'' text_lower then ''Cheque Transaction''
      else ''Merchant'')"

text \<open>Steps 5 and 6: the analyzer, then the defaults.\<close>

definition analyzer_merchant :: "analyzer \<Rightarrow> string \<Rightarrow> exn + string option" where
  "analyzer_merchant nlp text =
     (case nlp text of
        Inl e \<Rightarrow> Inl e
      | Inr d \<Rightarrow>
          (case verb_merchant d 0 (tokens d) of
             Some w \<Rightarrow> Inr (Some w)
           | None \<Rightarrow> Inr (Some (default_merchant (str_lower text)))))"

definition extract_merchant :: "analyzer \<Rightarrow> string \<Rightarrow> string \<Rightarrow> string \<Rightarrow> exn + string option" where
  "extract_merchant nlp text category subcategory =
     (let text_lower = str_lower text in
      if category = ''informational'' then Inr (informational_merchant text)
      else if category = ''loan'' \<and> subcategory \<noteq> ''generic''
           then Inr (Some (str_title subcategory @ '' Loan''))
      else if category = ''recharge''
           then Inr (Some (provider_merchant (names_of (providers recharge_config))
                             '' Recharge'' ''Mobile Recharge'' text_lower))
      else if category = ''insurance''
           then Inr (Some (provider_merchant (names_of (providers insurance_config))
                             '' Insurance'' ''Insurance Premium'' text_lower))
      else if category = ''investment''
           then Inr (Some (provider_merchant
                             [''groww'', ''coin'', ''zerodha'', ''upstox'', ''mf utility'']
                             '' Investment'' ''Investment'' text_lower))
      else
        (case (if category = ''debit'' \<and> subcategory = ''upi''
               then upi_merchant text [''trf'', ''sent'', ''paid'', ''transfer''] else None) of
           Some w \<Rightarrow> Inr (Some w)
         | None \<Rightarrow>
             (case general_merchant text
                     [''to'', ''at'', ''from'', ''trf'', ''transfer'', ''recharge'', ''paid''] of
                Some w \<Rightarrow> Inr (Some w)
              | None \<Rightarrow> analyzer_merchant nlp text)))"

section \<open>The orchestrator\<close>

text \<open>The record \<^verbatim>\<open>parse_sms_spacy\<close> returns. A key that is always there and may be
  \<^verbatim>\<open>None\<close> is an option; of the keys added for one category, \<open>loan_provider\<close>,
  \<open>investment_platform\<close> and \<open>insurance_provider\<close> are \<open>None\<close> when the key is absent and
  \<open>Some v\<close> with the value \<open>v\<close>, which may itself be \<^verbatim>\<open>None\<close>, when it is there.\<close>

record transaction =
  raw_text :: string
  category :: string
  subcategory :: string
  amount :: "rat option"
  currency :: "string option"
  formatted_amount :: "string option"
  merchant :: "string option"
  date :: string
  balance :: "monetary option"
  reference :: "string option"
  description :: string
  parser :: string
  timestamp :: string
  confidence :: rat
  loan_provider :: "string option option"
  investment_platform :: "string option option"
  insurance_provider :: "string option option"
  info_type :: "string option"

datatype parse_error = SMSParseError string

text \<open>\<^verbatim>\<open>str(e)\<close>\<close>

fun str_exn :: "exn \<Rightarrow> string" where
  "str_exn OverflowError = ''date value out of range''"
| "str_exn (AnalyzerError msg) = msg"

text \<open>\<^verbatim>\<open>subcategory or merchant\<close>\<close>

definition or_merchant :: "string \<Rightarrow> string option \<Rightarrow> string option" where
  "or_merchant sub mer = (if sub \<noteq> [] then Some sub else mer)"

definition info_type_of :: "string \<Rightarrow> string option" where
  "info_type_of text_lower =
     (if str_in ''price'' text_lower \<or> str_in ''rate'' text_lower then Some ''market_update''
      else if str_in ''balance'' text_lower \<or> str_in ''fund'' text_lower
           then Some ''balance_update''
      else if str_in ''offer'' text_lower \<or> str_in ''deal'' text_lower
              \<or> str_in ''buy'' text_lower
           then Some ''promotion''
      else None)"

text \<open>The three extractors that run for a message that is not informational.\<close>

definition transactional_fields ::
  "analyzer \<Rightarrow> string \<Rightarrow> string \<Rightarrow> string
     \<Rightarrow> exn + (monetary option \<times> string option \<times> string option)" where
  "transactional_fields nlp sms_text ctg sub =
     (if ctg \<noteq> ''informational'' then
        (case extract_amount nlp sms_text of
           Inl e \<Rightarrow> Inl e
         | Inr a \<Rightarrow>
             (case extract_merchant nlp sms_text ctg sub of
                Inl e \<Rightarrow> Inl e
              | Inr m \<Rightarrow> Inr (a, m, extract_reference sms_text)))
      else Inr (None, None, None))"

text \<open>The body of the \<^verbatim>\<open>try\<close>. \<open>today\<close> and \<open>stamp\<close> are the two readings of the clock:
  the one in the date extractor and the one for the \<^verbatim>\<open>timestamp\<close> of the record.\<close>

definition parse_body ::
  "analyzer \<Rightarrow> datetime \<Rightarrow> datetime \<Rightarrow> string \<Rightarrow> datetime option \<Rightarrow> exn + transaction" where
  "parse_body nlp today stamp sms_text sms_timestamp =
     (case detect_category nlp sms_text of
        Inl e \<Rightarrow> Inl e
      | Inr (ctg, sub, conf) \<Rightarrow>
          (case transactional_fields nlp sms_text ctg sub of
             Inl e \<Rightarrow> Inl e
           | Inr (amt, mer, ref) \<Rightarrow>
               (case extract_date today sms_text sms_timestamp of
                  Inl e \<Rightarrow> Inl e
                | Inr transaction_date \<Rightarrow>
                    Inr \<lparr>raw_text = sms_text,
                         category = ctg,
                         subcategory = sub,
                         amount = map_option amount_value amt,
                         currency = map_option amount_currency amt,
                         formatted_amount = map_option amount_formatted amt,
                         merchant = mer,
                         date = transaction_date,
                         balance = extract_balance sms_text,
                         reference = ref,
                         description = sms_text,
                         parser = ''spacy_universal_v4'',
                         timestamp = isoformat stamp,
                         confidence = conf,
                         loan_provider =
                           (if ctg = ''loan''
                            then Some (if sub \<noteq> ''generic'' then Some sub else mer)
                            else None),
                         investment_platform =
                           (if ctg = ''investment'' then Some (or_merchant sub mer) else None),
                         insurance_provider =
                           (if ctg = ''insurance'' then Some (or_merchant sub mer) else None),
                         info_type =
                           (if ctg = ''informational'' then info_type_of (str_lower sms_text)
                            else None)\<rparr>)))"

text \<open>\<^verbatim>\<open>parse_sms_spacy\<close>: an empty or blank text raises before the \<^verbatim>\<open>try\<close>; every
  exception of the body is raised again as an \<^verbatim>\<open>SMSParseError\<close>.\<close>

definition parse_sms_spacy ::
  "analyzer \<Rightarrow> datetime \<Rightarrow> datetime \<Rightarrow> string \<Rightarrow> datetime option
     \<Rightarrow> parse_error + transaction" where
  "parse_sms_spacy nlp today stamp sms_text sms_timestamp =
     (if sms_text = [] \<or> str_strip sms_text = [] then Inl (SMSParseError ''Empty SMS content'')
      else case parse_body nlp today stamp sms_text sms_timestamp of
             Inl e \<Rightarrow> Inl (SMSParseError (''Universal SMS parsing failed: '' @ str_exn e))
           | Inr r \<Rightarrow> Inr r)"

section \<open>Example messages\<close>

text \<open>A message with a loan keyword and none of the loan context phrases.\<close>

definition loan_sms :: string where
  "loan_sms = ''Your loan of Rs 500 is approved''"

text \<open>An analyzer that finds nothing, an analyzer that fails, and a time.\<close>

definition no_doc :: doc where
  "no_doc = \<lparr>tokens = [], ents = [], noun_chunks = []\<rparr>"

definition quiet :: analyzer where
  "quiet t = Inr no_doc"

definition broken :: analyzer where
  "broken t = Inl (AnalyzerError ''analyzer failed'')"

definition june10 :: datetime where
  "june10 = \<lparr>year = 2025, month = 6, day = 10, hour = 9, minute = 5, second = 0,
     microsecond = 0\<rparr>"

text \<open>A payment whose amount the first stage of the amount extractor finds, and a message
  without any sign of a transaction.\<close>

definition paid_sms :: string where
  "paid_sms = ''paid Rs 500 to shop''"

definition plain_balance_sms :: string where
  "plain_balance_sms = ''Your balance is 450''"

text \<open>The last day a \<^verbatim>\<open>datetime\<close> can hold, and a message about the day after.\<close>

definition last_day :: datetime where
  "last_day = date_of 9999 12 31"

definition tomorrow_sms :: string where
  "tomorrow_sms = ''EMI due tomorrow''"

section \<open>Evaluation of the character classes\<close>

text \<open>The classes and the case of a character, computed from its bits. These equations
  replace the comparisons of character codes when a term is evaluated.\<close>

lemma is_digit_code [code]:
  "is_digit (Char b0 b1 b2 b3 b4 b5 b6 b7)
     = (\<not> b7 \<and> \<not> b6 \<and> b5 \<and> b4 \<and> (if b3 then \<not> b2 \<and> \<not> b1 else True))"
  unfolding is_digit_def in_rng_def code_def
  by (cases b0; cases b1; cases b2; cases b3; cases b4; cases b5; cases b6; cases b7; simp)

lemma is_upper_code [code]:
  "is_upper (Char b0 b1 b2 b3 b4 b5 b6 b7)
     = (\<not> b7 \<and> b6 \<and> \<not> b5 \<and> (b0 \<or> b1 \<or> b2 \<or> b3 \<or> b4)
        \<and> \<not> (b4 \<and> b3 \<and> (b2 \<or> (b1 \<and> b0))))"
  unfolding is_upper_def in_rng_def code_def
  by (cases b0; cases b1; cases b2; cases b3; cases b4; cases b5; cases b6; cases b7; simp)

lemma is_lower_code [code]:
  "is_lower (Char b0 b1 b2 b3 b4 b5 b6 b7)
     = (\<not> b7 \<and> b6 \<and> b5 \<and> (b0 \<or> b1 \<or> b2 \<or> b3 \<or> b4)
        \<and> \<not> (b4 \<and> b3 \<and> (b2 \<or> (b1 \<and> b0))))"
  unfolding is_lower_def in_rng_def code_def
  by (cases b0; cases b1; cases b2; cases b3; cases b4; cases b5; cases b6; cases b7; simp)

lemma is_space_code [code]:
  "is_space (Char b0 b1 b2 b3 b4 b5 b6 b7)
     = (\<not> b7 \<and> \<not> b6
        \<and> (if b5 then \<not> b4 \<and> \<not> b3 \<and> \<not> b2 \<and> \<not> b1 \<and> \<not> b0
            else if b4 then b3 \<and> b2
            else b3 \<and> (if b2 then \<not> b1 else b1 \<or> b0)))"
  unfolding is_space_def code_def
  by (cases b0; cases b1; cases b2; cases b3; cases b4; cases b5; cases b6; cases b7; simp)

lemma lower_char_code [code]:
  "lower_char (Char b0 b1 b2 b3 b4 b5 b6 b7)
     = (if is_upper (Char b0 b1 b2 b3 b4 b5 b6 b7) then Char b0 b1 b2 b3 b4 True b6 b7
        else Char b0 b1 b2 b3 b4 b5 b6 b7)"
  unfolding lower_char_def is_upper_def in_rng_def code_def
  by (cases b0; cases b1; cases b2; cases b3; cases b4; cases b5; cases b6; cases b7; simp add: char_of_def bit_0)

lemma upper_char_code [code]:
  "upper_char (Char b0 b1 b2 b3 b4 b5 b6 b7)
     = (if is_lower (Char b0 b1 b2 b3 b4 b5 b6 b7) then Char b0 b1 b2 b3 b4 False b6 b7
        else Char b0 b1 b2 b3 b4 b5 b6 b7)"
  unfolding upper_char_def is_lower_def in_rng_def code_def
  by (cases b0; cases b1; cases b2; cases b3; cases b4; cases b5; cases b6; cases b7; simp add: char_of_def bit_0)

section \<open>Properties of the classifier\<close>

lemma scan_keywords_none:
  "scan_keywords ctg cfg text_lower kws = None \<Longrightarrow> \<not> any_in kws text_lower"
  by (induction kws) (auto simp: any_in_def split: if_splits)

lemma loan_recheck_none:
  "\<not> any_in kws text_lower \<Longrightarrow> loan_recheck text_lower kws = None"
  by (induction kws) (auto simp: any_in_def)

lemma specialized_scan_loan:
  assumes "specialized_scan text_lower TRANSACTION_CATEGORIES = None"
  shows "scan_keywords ''loan'' loan_config text_lower (config_keywords loan_config) = None"
  using assms by (simp add: TRANSACTION_CATEGORIES_def split: option.splits)

text \<open>
  C9: the second look at the loan keywords (step 3) never decides. Step 2 starts with the
  loan category and returns at the first loan keyword it finds in the text, whatever the
  context phrases say; so when step 3 is reached no loan keyword is in the text, and the
  classifier returns what the classifier without step 3 returns, for every analyzer and
  every text.
\<close>

theorem loan_recheck_redundant:
  "detect_category nlp text = detect_category_without_recheck nlp text"
proof -
  have "loan_recheck text_lower (config_keywords loan_config) = None"
    if "specialized_scan text_lower TRANSACTION_CATEGORIES = None" for text_lower
    using that specialized_scan_loan scan_keywords_none loan_recheck_none by blast
  then show ?thesis
    by (auto simp: detect_category_def detect_category_without_recheck_def Let_def
             split: sum.splits option.splits)
qed

lemma loan_sms_no_indicator:
  "re_search True transaction_indicators_rx (str_lower loan_sms) = None"
  by code_simp

lemma loan_sms_amount_after:
  "list_ex (amount_after (str_lower loan_sms)) amount_indicators"
  by code_simp

lemma loan_sms_scan:
  "specialized_scan (normalize loan_sms) TRANSACTION_CATEGORIES = Some (''loan'', [], 0.85)"
  by code_simp

lemma loan_sms_no_context:
  "\<not> any_search loan_context_phrases (normalize loan_sms)"
  by code_simp

text \<open>
  C2, evaluated at a failing input: on \<^verbatim>\<open>Your loan of Rs 500 is approved\<close> none of the
  loan context phrases matches, the loan category is configured with context phrases, and
  the classifier returns the loan category with confidence 0.85, whatever document the
  analyzer returns.
\<close>

theorem loan_without_context_phrase:
  "detect_category (\<lambda>t. Inr d) loan_sms = Inr (''loan'', [], 0.85)
   \<and> context_phrases loan_config = Some loan_context_phrases
   \<and> \<not> any_search loan_context_phrases (normalize loan_sms)"
  using loan_sms_no_indicator loan_sms_amount_after loan_sms_scan loan_sms_no_context
  by (simp add: detect_category_def is_transactional_message_def Let_def loan_config_def)

section \<open>Properties of the amount extractor\<close>

lemma candidate_plausible: "candidate text ind = Some (a, p) \<Longrightarrow> plausible a"
  by (auto simp: candidate_def Let_def split: option.splits if_splits)

lemma map_filter_source:
  "y \<in> set (List.map_filter f xs) \<Longrightarrow> \<exists>x \<in> set xs. f x = Some y"
  by (induction xs) (auto split: option.splits)

lemma indicator_scan_plausible: "(a, p) \<in> set (indicator_scan text) \<Longrightarrow> plausible a"
  by (auto simp: indicator_scan_def dest!: map_filter_source dest: candidate_plausible)

lemma money_scan_plausible: "money_scan text_lower es = Some a \<Longrightarrow> plausible (amount_value a)"
  by (induction es) (auto simp: monetary_of_def split: if_splits option.splits)

lemma prefixed_scan_plausible: "prefixed_scan text_lower = Some a \<Longrightarrow> plausible (amount_value a)"
  by (auto simp: prefixed_scan_def monetary_of_def split: if_splits option.splits)

lemma token_scan_plausible: "token_scan prev ts = Some a \<Longrightarrow> plausible (amount_value a)"
  by (induction ts arbitrary: prev) (auto simp: monetary_of_def split: if_splits option.splits)

lemma extract_amount_plausible:
  assumes "extract_amount nlp text = Inr (Some a)"
  shows "plausible (amount_value a)"
proof (cases "sort_key snd (indicator_scan text)")
  case Nil
  with assms show ?thesis
    by (auto simp: extract_amount_def Let_def split: sum.splits option.splits
             dest: money_scan_plausible prefixed_scan_plausible token_scan_plausible)
next
  case (Cons x xs)
  obtain v p where x: "x = (v, p)" by (cases x)
  have "x \<in> set (sort_key snd (indicator_scan text))" using Cons by simp
  then have "(v, p) \<in> set (indicator_scan text)" using x by simp
  then have "plausible v" by (rule indicator_scan_plausible)
  moreover have "a = monetary_of v (resolve_currency (str_lower text))"
    using assms Cons x by (simp add: extract_amount_def Let_def)
  ultimately show ?thesis by (simp add: monetary_of_def)
qed

lemma parse_amount:
  assumes "parse_sms_spacy nlp today stamp text ts = Inr r" "amount r = Some v"
  shows "\<exists>a. extract_amount nlp text = Inr (Some a) \<and> amount_value a = v"
  using assms
  by (auto simp: parse_sms_spacy_def parse_body_def transactional_fields_def
           split: if_splits sum.splits prod.splits)

text \<open>
  C3: an amount the extractor returns lies between 1 and 10,000,000, whichever of its four
  stages found it; so does the amount of every record the parser returns.
\<close>

theorem amount_in_range:
  "(extract_amount nlp text = Inr (Some a) \<longrightarrow> 1 \<le> amount_value a \<and> amount_value a \<le> 10000000)
   \<and> (parse_sms_spacy nlp today stamp text ts = Inr r \<longrightarrow> amount r = Some v \<longrightarrow>
        1 \<le> v \<and> v \<le> 10000000)"
  using extract_amount_plausible parse_amount unfolding plausible_def by blast

lemma paid_sms_amount:
  "extract_amount quiet paid_sms = Inr (Some (monetary_of 500 ''INR''))"
  by code_simp

theorem amount_in_range_witness:
  "extract_amount quiet paid_sms = Inr (Some (monetary_of 500 ''INR''))
   \<and> 1 \<le> amount_value (monetary_of 500 ''INR'')
   \<and> amount_value (monetary_of 500 ''INR'') \<le> 10000000"
  using amount_in_range [of quiet paid_sms "monetary_of 500 ''INR''"] paid_sms_amount
  by simp

section \<open>Properties of the orchestrator\<close>

text \<open>
  C4: in a record the parser returns with the category \<^verbatim>\<open>informational\<close>, the amount,
  the currency, the formatted amount, the merchant and the reference are \<^verbatim>\<open>None\<close>: the
  three extractors are not called for such a message.
\<close>

theorem informational_fields_null:
  assumes "parse_sms_spacy nlp today stamp text ts = Inr r"
    and "category r = ''informational''"
  shows "amount r = None \<and> currency r = None \<and> formatted_amount r = None
         \<and> merchant r = None \<and> reference r = None"
  using assms
  by (auto simp: parse_sms_spacy_def parse_body_def transactional_fields_def
           split: if_splits sum.splits prod.splits)

lemma plain_balance_parse:
  "map_sum id category (parse_sms_spacy quiet june10 june10 plain_balance_sms None)
     = Inr ''informational''"
  by code_simp

theorem informational_fields_null_witness:
  "\<exists>r. parse_sms_spacy quiet june10 june10 plain_balance_sms None = Inr r
       \<and> category r = ''informational''
       \<and> amount r = None \<and> currency r = None \<and> formatted_amount r = None
       \<and> merchant r = None \<and> reference r = None"
proof -
  obtain r where r: "parse_sms_spacy quiet june10 june10 plain_balance_sms None = Inr r"
    and c: "category r = ''informational''"
    using plain_balance_parse
    by (cases "parse_sms_spacy quiet june10 june10 plain_balance_sms None") auto
  from informational_fields_null [OF r c] r c show ?thesis by blast
qed

text \<open>
  C10: with the timestamp given, the parser returns the same error or, up to the field
  \<^verbatim>\<open>timestamp\<close>, the same record, whatever the clock shows in the two calls; the analyzer is
  the same function in both.
\<close>

theorem parse_deterministic:
  "map_sum id (\<lambda>r. r\<lparr>timestamp := []\<rparr>) (parse_sms_spacy nlp today1 stamp1 text (Some t))
   = map_sum id (\<lambda>r. r\<lparr>timestamp := []\<rparr>) (parse_sms_spacy nlp today2 stamp2 text (Some t))"
  by (auto simp: parse_sms_spacy_def parse_body_def extract_date_def base_time_def
           split: sum.splits prod.splits option.splits)

end
